theory Spec2Isabelle
  imports Complex_Main
begin

section \<open>JavaScript numbers\<close>

text \<open>
  The calculator computes on JavaScript \<^verbatim>\<open>number\<close> values, and its own data hold the
  special ones: the last bracket of each table has the limit \<^verbatim>\<open>Infinity\<close>, and \<^verbatim>\<open>Number\<close>
  gives NaN on a string that is not numeric. A value is modelled as a real number, one of
  the two infinities, or NaN. The arithmetic below follows IEEE 754 on the special values
  (\<^verbatim>\<open>Infinity - Infinity\<close>, \<^verbatim>\<open>Infinity * 0\<close> and every operation on NaN give NaN; a
  comparison with NaN is false) and is exact on finite values: rounding to a double,
  overflow and underflow of a finite result, and the sign of zero are not modelled. A
  decimal constant of the source, such as \<^verbatim>\<open>0.06\<close> or \<^verbatim>\<open>1.1\<close>, is its decimal value.
\<close>

datatype jsnum = NaN | PInf | NInf | Fin real

fun jneg :: "jsnum \<Rightarrow> jsnum" where
  "jneg NaN = NaN"
| "jneg PInf = NInf"
| "jneg NInf = PInf"
| "jneg (Fin a) = Fin (- a)"

fun jadd :: "jsnum \<Rightarrow> jsnum \<Rightarrow> jsnum" where
  "jadd (Fin a) (Fin b) = Fin (a + b)"
| "jadd NaN y = NaN"
| "jadd x NaN = NaN"
| "jadd PInf NInf = NaN"
| "jadd NInf PInf = NaN"
| "jadd PInf y = PInf"
| "jadd NInf y = NInf"
| "jadd x PInf = PInf"
| "jadd x NInf = NInf"

definition jsub :: "jsnum \<Rightarrow> jsnum \<Rightarrow> jsnum" where
  "jsub x y = jadd x (jneg y)"

text \<open>An infinity times a finite value: NaN at zero, otherwise the sign of the product.\<close>

definition infTimes :: "bool \<Rightarrow> real \<Rightarrow> jsnum" where
  "infTimes pos a = (if a = 0 then NaN else if (0 < a) = pos then PInf else NInf)"

fun jmul :: "jsnum \<Rightarrow> jsnum \<Rightarrow> jsnum" where
  "jmul (Fin a) (Fin b) = Fin (a * b)"
| "jmul NaN y = NaN"
| "jmul x NaN = NaN"
| "jmul PInf PInf = PInf"
| "jmul PInf NInf = NInf"
| "jmul NInf PInf = NInf"
| "jmul NInf NInf = PInf"
| "jmul PInf (Fin b) = infTimes True b"
| "jmul NInf (Fin b) = infTimes False b"
| "jmul (Fin a) PInf = infTimes True a"
| "jmul (Fin a) NInf = infTimes False a"

text \<open>
  Division. A zero divisor is taken as \<^verbatim>\<open>+0\<close>; the calculator divides only by a value it
  has tested to be greater than zero.
\<close>

fun jdiv :: "jsnum \<Rightarrow> jsnum \<Rightarrow> jsnum" where
  "jdiv (Fin a) (Fin b) = (if b = 0 then infTimes True a else Fin (a / b))"
| "jdiv NaN y = NaN"
| "jdiv x NaN = NaN"
| "jdiv (Fin a) PInf = Fin 0"
| "jdiv (Fin a) NInf = Fin 0"
| "jdiv PInf (Fin b) = (if 0 \<le> b then PInf else NInf)"
| "jdiv NInf (Fin b) = (if 0 \<le> b then NInf else PInf)"
| "jdiv x y = NaN"

text \<open>The comparisons \<^verbatim>\<open><=\<close> and \<^verbatim>\<open>>\<close>: false as soon as an operand is NaN.\<close>

fun jle :: "jsnum \<Rightarrow> jsnum \<Rightarrow> bool" where
  "jle (Fin a) (Fin b) = (a \<le> b)"
| "jle NaN y = False"
| "jle x NaN = False"
| "jle NInf y = True"
| "jle x PInf = True"
| "jle PInf y = False"
| "jle x NInf = False"

fun jgt :: "jsnum \<Rightarrow> jsnum \<Rightarrow> bool" where
  "jgt (Fin a) (Fin b) = (b < a)"
| "jgt NaN y = False"
| "jgt x NaN = False"
| "jgt PInf PInf = False"
| "jgt NInf NInf = False"
| "jgt PInf y = True"
| "jgt x NInf = True"
| "jgt NInf y = False"
| "jgt x PInf = False"

text \<open>\<^verbatim>\<open>Math.max\<close> of two values: NaN if either is NaN.\<close>

fun jmax :: "jsnum \<Rightarrow> jsnum \<Rightarrow> jsnum" where
  "jmax NaN y = NaN"
| "jmax x NaN = NaN"
| "jmax x y = (if jle x y then y else x)"

text \<open>Truthiness of a number: every number but NaN and zero is truthy.\<close>

fun truthy :: "jsnum \<Rightarrow> bool" where
  "truthy NaN = False"
| "truthy (Fin a) = (a \<noteq> 0)"
| "truthy x = True"

text \<open>The idiom \<^verbatim>\<open>x || 0\<close> on a number \<^verbatim>\<open>x\<close>.\<close>

definition orZero :: "jsnum \<Rightarrow> jsnum" where
  "orZero x = (if truthy x then x else Fin 0)"

section \<open>Strings and \<^verbatim>\<open>Number\<close>\<close>

text \<open>
  A JavaScript string is its sequence of UTF-16 code units. \<open>js\<close> writes an ASCII
  literal as such a sequence.
\<close>

type_synonym jsstring = "nat list"

definition js :: "string \<Rightarrow> jsstring" where
  "js s = map of_char s"

text \<open>
  \<^verbatim>\<open>Number(s)\<close> on a string follows the grammar \<^verbatim>\<open>StringNumericLiteral\<close> of ECMAScript:
  white space and line terminators are trimmed; the empty string is 0; the rest is a signed
  decimal literal (digits, a fraction, an exponent, or \<^verbatim>\<open>Infinity\<close>) or an unsigned binary,
  octal or hexadecimal integer; anything else is NaN. The value of a literal is its
  exact value.
\<close>

definition isWhiteSpace :: "nat \<Rightarrow> bool" where
  "isWhiteSpace c =
     (c \<in> set [0x9, 0xA, 0xB, 0xC, 0xD, 0x20, 0xA0, 0x1680, 0x2028, 0x2029, 0x202F, 0x205F,
                0x3000, 0xFEFF]
      \<or> (0x2000 \<le> c \<and> c \<le> 0x200A))"

definition isDigit :: "nat \<Rightarrow> bool" where
  "isDigit c = (48 \<le> c \<and> c \<le> 57)"

text \<open>The value of a digit in a base up to 16, if the code unit is one.\<close>

definition digitOf :: "nat \<Rightarrow> nat \<Rightarrow> nat option" where
  "digitOf base c =
     (let v = (if 48 \<le> c \<and> c \<le> 57 then Some (c - 48)
               else if 97 \<le> c \<and> c \<le> 102 then Some (c - 87)
               else if 65 \<le> c \<and> c \<le> 70 then Some (c - 55)
               else None)
      in case v of None \<Rightarrow> None | Some d \<Rightarrow> if d < base then Some d else None)"

definition digitsValue :: "nat \<Rightarrow> jsstring \<Rightarrow> nat" where
  "digitsValue base ds = foldl (\<lambda>a c. base * a + the (digitOf base c)) 0 ds"

text \<open>The digits \<open>ds\<close> read as a decimal integer, times ten to the power \<open>k\<close>.\<close>

definition scale :: "jsstring \<Rightarrow> int \<Rightarrow> real" where
  "scale ds k =
     (if 0 \<le> k then real (digitsValue 10 ds) * 10 ^ nat k
      else real (digitsValue 10 ds) / 10 ^ nat (- k))"

text \<open>
  After the mantissa (its digits \<open>ds\<close>, the last \<open>nfrac\<close> of them behind the point): an
  exponent part if a complete one follows, and the rest of the string.
\<close>

definition exponentPart :: "jsstring \<Rightarrow> nat \<Rightarrow> jsstring \<Rightarrow> jsnum \<times> jsstring" where
  "exponentPart ds nfrac r =
     (if r \<noteq> [] \<and> (hd r = 101 \<or> hd r = 69) then
        let r1 = tl r;
            neg = (r1 \<noteq> [] \<and> hd r1 = 45);
            r2 = (if r1 \<noteq> [] \<and> (hd r1 = 43 \<or> hd r1 = 45) then tl r1 else r1);
            es = takeWhile isDigit r2
        in if es = [] then (Fin (scale ds (- int nfrac)), r)
           else (Fin (scale ds ((if neg then - int (digitsValue 10 es) else int (digitsValue 10 es))
                                - int nfrac)),
                 dropWhile isDigit r2)
      else (Fin (scale ds (- int nfrac)), r))"

definition strUnsignedDecimalLiteral :: "jsstring \<Rightarrow> (jsnum \<times> jsstring) option" where
  "strUnsignedDecimalLiteral t =
     (if take 8 t = js ''Infinity'' then Some (PInf, drop 8 t)
      else
        let ip = takeWhile isDigit t; r1 = dropWhile isDigit t in
        if r1 \<noteq> [] \<and> hd r1 = 46 then
          let fp = takeWhile isDigit (tl r1); r3 = dropWhile isDigit (tl r1) in
          if ip = [] \<and> fp = [] then None else Some (exponentPart (ip @ fp) (length fp) r3)
        else if ip = [] then None else Some (exponentPart ip 0 r1))"

definition strDecimalLiteral :: "jsstring \<Rightarrow> (jsnum \<times> jsstring) option" where
  "strDecimalLiteral t =
     (if t \<noteq> [] \<and> hd t = 43 then strUnsignedDecimalLiteral (tl t)
      else if t \<noteq> [] \<and> hd t = 45 then
        map_option (\<lambda>(v, r). (jneg v, r)) (strUnsignedDecimalLiteral (tl t))
      else strUnsignedDecimalLiteral t)"

definition nonDecimalIntegerLiteral :: "jsstring \<Rightarrow> (jsnum \<times> jsstring) option" where
  "nonDecimalIntegerLiteral t =
     (if 2 \<le> length t \<and> hd t = 48 then
        let x = hd (tl t);
            base = (if x = 120 \<or> x = 88 then 16 else if x = 111 \<or> x = 79 then 8
                    else if x = 98 \<or> x = 66 then 2 else 0);
            ds = takeWhile (\<lambda>c. digitOf base c \<noteq> None) (tl (tl t))
        in if ds = [] then None
           else Some (Fin (real (digitsValue base ds)),
                      dropWhile (\<lambda>c. digitOf base c \<noteq> None) (tl (tl t)))
      else None)"

definition Number :: "jsstring \<Rightarrow> jsnum" where
  "Number s =
     (let t = dropWhile isWhiteSpace s in
      if t = [] then Fin 0
      else case (case nonDecimalIntegerLiteral t of None \<Rightarrow> strDecimalLiteral t | Some p \<Rightarrow> Some p) of
             None \<Rightarrow> NaN
           | Some (v, rest) \<Rightarrow> if list_all isWhiteSpace rest then v else NaN)"

section \<open>Types and constants of the calculator\<close>

text \<open>The six entries of one period, as the form holds them: strings.\<close>

record YearData =
  revenue :: jsstring
  cogs :: jsstring
  sga :: jsstring
  nonOpIncome :: jsstring
  nonOpExpense :: jsstring
  additionalExpenses :: jsstring

text \<open>\<^verbatim>\<open>type EntityType = 'individual' | 'corporate' | null\<close>\<close>

datatype EntityType = Individual | Corporate | Null

record TaxBracket =
  limit :: jsnum
  rate :: jsnum
  deduction :: jsnum

definition INDIVIDUAL_TAX_BRACKETS :: "TaxBracket list" where
  "INDIVIDUAL_TAX_BRACKETS =
     [\<lparr>limit = Fin 14000000, rate = Fin 0.06, deduction = Fin 0\<rparr>,
      \<lparr>limit = Fin 50000000, rate = Fin 0.15, deduction = Fin 1260000\<rparr>,
      \<lparr>limit = Fin 88000000, rate = Fin 0.24, deduction = Fin 5760000\<rparr>,
      \<lparr>limit = Fin 150000000, rate = Fin 0.35, deduction = Fin 15440000\<rparr>,
      \<lparr>limit = Fin 300000000, rate = Fin 0.38, deduction = Fin 19940000\<rparr>,
      \<lparr>limit = Fin 500000000, rate = Fin 0.40, deduction = Fin 25940000\<rparr>,
      \<lparr>limit = Fin 1000000000, rate = Fin 0.42, deduction = Fin 35940000\<rparr>,
      \<lparr>limit = PInf, rate = Fin 0.45, deduction = Fin 65940000\<rparr>]"

definition CORPORATE_TAX_BRACKETS :: "TaxBracket list" where
  "CORPORATE_TAX_BRACKETS =
     [\<lparr>limit = Fin 200000000, rate = Fin 0.09, deduction = Fin 0\<rparr>,
      \<lparr>limit = Fin 20000000000, rate = Fin 0.19, deduction = Fin 20000000\<rparr>,
      \<lparr>limit = Fin 300000000000, rate = Fin 0.21, deduction = Fin 420000000\<rparr>,
      \<lparr>limit = PInf, rate = Fin 0.24, deduction = Fin 9420000000\<rparr>]"

definition BASIC_DEDUCTION :: jsnum where
  "BASIC_DEDUCTION = Fin 1500000"

record ProfitMargin =
  individual :: jsnum
  corporate :: jsnum

text \<open>
  The benchmark table, an object literal: its own properties, in the order of the source.
  The six keys are Korean industry names, given by their code units.
\<close>

definition INDUSTRY_PROFIT_MARGINS :: "(jsstring \<times> ProfitMargin) list" where
  "INDUSTRY_PROFIT_MARGINS =
     [([0xB3C4, 0xC18C, 0xB9E4, 0xC5C5], \<lparr>individual = Fin 0.117, corporate = Fin 0.045\<rparr>),
      ([0xC81C, 0xC870, 0xC5C5], \<lparr>individual = Fin 0.0431, corporate = Fin 0.023\<rparr>),
      ([0xC74C, 0xC2DD, 0xC219, 0xBC15, 0xC5C5], \<lparr>individual = Fin 0.0889, corporate = Fin 0.03\<rparr>),
      ([0xC11C, 0xBE44, 0xC2A4, 0xC5C5], \<lparr>individual = Fin 0.0851, corporate = Fin 0.016\<rparr>),
      ([0xAC74, 0xC124, 0xC5C5], \<lparr>individual = Fin 0.1219, corporate = Fin 0.043\<rparr>),
      ([0xBD80, 0xB3D9, 0xC0B0, 0xC5C5], \<lparr>individual = Fin 0.1058, corporate = Fin 0.02\<rparr>)]"

text \<open>
  Reading a property \<^verbatim>\<open>obj[key]\<close> of an object literal finds an own property, or else a
  property the object inherits from \<^verbatim>\<open>Object.prototype\<close>, or else nothing
  (\<^verbatim>\<open>undefined\<close>). The inherited properties are functions, and \<^verbatim>\<open>__proto__\<close> is
  \<^verbatim>\<open>Object.prototype\<close> itself: truthy values with no property \<^verbatim>\<open>individual\<close> or
  \<^verbatim>\<open>corporate\<close>.
\<close>

definition objectPrototypeKeys :: "jsstring list" where
  "objectPrototypeKeys =
     map js [''constructor'', ''__defineGetter__'', ''__defineSetter__'', ''hasOwnProperty'',
             ''__lookupGetter__'', ''__lookupSetter__'', ''isPrototypeOf'',
             ''propertyIsEnumerable'', ''toString'', ''valueOf'', ''__proto__'',
             ''toLocaleString'']"

datatype 'a property = Own 'a | Inherited | Absent

definition getProperty :: "(jsstring \<times> 'a) list \<Rightarrow> jsstring \<Rightarrow> 'a property" where
  "getProperty obj key =
     (case map_of obj key of
        Some v \<Rightarrow> Own v
      | None \<Rightarrow> if key \<in> set objectPrototypeKeys then Inherited else Absent)"

text \<open>
  The result record: every field is optional (\<^verbatim>\<open>field?: number\<close>); \<open>None\<close> is what reading
  a field gives when it is \<^verbatim>\<open>undefined\<close>.
\<close>

record CalculationResult =
  numRevenue :: "jsnum option"
  numCogs :: "jsnum option"
  grossProfit :: "jsnum option"
  numSga :: "jsnum option"
  operatingIncome :: "jsnum option"
  numNonOpIncome :: "jsnum option"
  numNonOpExpense :: "jsnum option"
  numAdditionalExpenses :: "jsnum option"
  currentNetIncomeBeforeAdjustment :: "jsnum option"
  currentNetIncomeAfterAdjustment :: "jsnum option"
  annualizedRevenue :: "jsnum option"
  annualizedCogs :: "jsnum option"
  annualizedGrossProfit :: "jsnum option"
  annualizedSga :: "jsnum option"
  annualizedOperatingIncome :: "jsnum option"
  annualizedNonOpIncome :: "jsnum option"
  annualizedNonOpExpense :: "jsnum option"
  annualizedNetIncomeBeforeAdjustment :: "jsnum option"
  annualizedNetIncomeAfterAdjustment :: "jsnum option"
  baseTaxAfter :: "jsnum option"
  taxCreditAmountAfter :: "jsnum option"
  taxAfterCredit :: "jsnum option"
  finalTaxBefore :: "jsnum option"
  finalTaxAfter :: "jsnum option"
  taxSavings :: "jsnum option"
  safeProfit :: "jsnum option"
  profitMargin :: "jsnum option"

text \<open>The object \<^verbatim>\<open>{}\<close>: every field reads as \<^verbatim>\<open>undefined\<close>.\<close>

definition emptyResult :: CalculationResult where
  "emptyResult =
     \<lparr> numRevenue = None, numCogs = None, grossProfit = None, numSga = None,
       operatingIncome = None, numNonOpIncome = None, numNonOpExpense = None,
       numAdditionalExpenses = None, currentNetIncomeBeforeAdjustment = None,
       currentNetIncomeAfterAdjustment = None, annualizedRevenue = None,
       annualizedCogs = None, annualizedGrossProfit = None, annualizedSga = None,
       annualizedOperatingIncome = None, annualizedNonOpIncome = None,
       annualizedNonOpExpense = None, annualizedNetIncomeBeforeAdjustment = None,
       annualizedNetIncomeAfterAdjustment = None, baseTaxAfter = None,
       taxCreditAmountAfter = None, taxAfterCredit = None, finalTaxBefore = None,
       finalTaxAfter = None, taxSavings = None, safeProfit = None, profitMargin = None \<rparr>"

text \<open>A value used as an operand of \<^verbatim>\<open>*\<close>: \<^verbatim>\<open>undefined\<close> converts to NaN.\<close>

definition toNumber :: "jsnum option \<Rightarrow> jsnum" where
  "toNumber v = (case v of None \<Rightarrow> NaN | Some x \<Rightarrow> x)"

section \<open>The calculator\<close>

text \<open>
  The loop of \<^verbatim>\<open>calculateTax\<close>: the first bracket, in the order of the table, whose limit
  the income does not exceed; the bracket chosen before the loop if there is none.
\<close>

fun scanBrackets :: "jsnum \<Rightarrow> TaxBracket list \<Rightarrow> TaxBracket \<Rightarrow> TaxBracket" where
  "scanBrackets income [] applicableBracket = applicableBracket"
| "scanBrackets income (bracket # rest) applicableBracket =
     (if jle income (limit bracket) then bracket
      else scanBrackets income rest applicableBracket)"

text \<open>\<^verbatim>\<open>calculateTax\<close>, a closure of \<^verbatim>\<open>calculateAllMetrics\<close> over the entity type.\<close>

definition calculateTax :: "EntityType \<Rightarrow> jsnum \<Rightarrow> jsnum" where
  "calculateTax entityType income =
     (if jle income (Fin 0) then Fin 0
      else
        let brackets = (if entityType = Individual then INDIVIDUAL_TAX_BRACKETS
                        else CORPORATE_TAX_BRACKETS);
            applicableBracket = scanBrackets income brackets (brackets ! (length brackets - 1))
        in jsub (jmul income (rate applicableBracket)) (deduction applicableBracket))"

text \<open>
  The local constant \<^verbatim>\<open>annualizationFactor\<close>, which depends on the settlement month only:
  \<^verbatim>\<open>settlementMonth > 0 ? 12 / settlementMonth : 0\<close>.
\<close>

definition annualizationFactorOf :: "jsnum \<Rightarrow> jsnum" where
  "annualizationFactorOf settlementMonth =
     (if jgt settlementMonth (Fin 0) then jdiv (Fin 12) settlementMonth else Fin 0)"

text \<open>\<^verbatim>\<open>calculateAllMetrics\<close> of \<^verbatim>\<open>src/App.tsx\<close>: the entries are in currency units.\<close>

definition calculateAllMetrics ::
  "YearData \<Rightarrow> jsnum \<Rightarrow> EntityType \<Rightarrow> bool \<Rightarrow> jsnum \<Rightarrow> jsstring \<Rightarrow> CalculationResult" where
  "calculateAllMetrics data settlementMonth entityType includeLocalTax taxCreditRate industry =
     (if entityType = Null then emptyResult
      else
        let numRevenue = orZero (Number (revenue data));
            numCogs = orZero (Number (cogs data));
            numSga = orZero (Number (sga data));
            numNonOpIncome = orZero (Number (nonOpIncome data));
            numNonOpExpense = orZero (Number (nonOpExpense data));
            numAdditionalExpenses = orZero (Number (additionalExpenses data));
            annualizationFactor = annualizationFactorOf settlementMonth;
            grossProfit = jsub numRevenue numCogs;
            operatingIncome = jsub grossProfit numSga;
            currentNetIncomeBeforeAdjustment =
              jsub (jadd operatingIncome numNonOpIncome) numNonOpExpense;
            currentNetIncomeAfterAdjustment =
              jsub currentNetIncomeBeforeAdjustment numAdditionalExpenses;
            annualizedRevenue = jmul numRevenue annualizationFactor;
            annualizedCogs = jmul numCogs annualizationFactor;
            annualizedSga = jmul numSga annualizationFactor;
            annualizedNonOpIncome = jmul numNonOpIncome annualizationFactor;
            annualizedNonOpExpense = jmul numNonOpExpense annualizationFactor;
            annualizedGrossProfit = jmul grossProfit annualizationFactor;
            annualizedOperatingIncome = jmul operatingIncome annualizationFactor;
            annualizedNetIncomeBeforeAdjustment =
              jsub (jadd annualizedOperatingIncome annualizedNonOpIncome) annualizedNonOpExpense;
            annualizedNetIncomeAfterAdjustment =
              jsub annualizedNetIncomeBeforeAdjustment numAdditionalExpenses;
            deduction = (if entityType = Individual then BASIC_DEDUCTION else Fin 0);
            taxableIncomeBefore = jmax (Fin 0) (jsub annualizedNetIncomeBeforeAdjustment deduction);
            baseTaxBefore = calculateTax entityType taxableIncomeBefore;
            taxableIncomeAfter = jmax (Fin 0) (jsub annualizedNetIncomeAfterAdjustment deduction);
            baseTaxAfter = calculateTax entityType taxableIncomeAfter;
            taxCreditAmountAfter = jmul baseTaxAfter taxCreditRate;
            taxAfterCredit = jsub baseTaxAfter taxCreditAmountAfter;
            finalTaxBefore =
              jmul (jmul baseTaxBefore (jsub (Fin 1) taxCreditRate))
                (if includeLocalTax then Fin 1.1 else Fin 1);
            finalTaxAfter = jmul taxAfterCredit (if includeLocalTax then Fin 1.1 else Fin 1);
            taxSavings = jsub finalTaxBefore finalTaxAfter;
            profitMarginDetails = getProperty INDUSTRY_PROFIT_MARGINS industry;
            profitMargin =
              (case profitMarginDetails of
                 Absent \<Rightarrow> Some (Fin 0)
               | Own details \<Rightarrow>
                   Some (if entityType = Individual then individual details else corporate details)
               | Inherited \<Rightarrow> None);
            safeProfit = jmul annualizedRevenue (toNumber profitMargin)
        in \<lparr> numRevenue = Some numRevenue, numCogs = Some numCogs,
             grossProfit = Some grossProfit, numSga = Some numSga,
             operatingIncome = Some operatingIncome, numNonOpIncome = Some numNonOpIncome,
             numNonOpExpense = Some numNonOpExpense,
             numAdditionalExpenses = Some numAdditionalExpenses,
             currentNetIncomeBeforeAdjustment = Some currentNetIncomeBeforeAdjustment,
             currentNetIncomeAfterAdjustment = Some currentNetIncomeAfterAdjustment,
             annualizedRevenue = Some annualizedRevenue, annualizedCogs = Some annualizedCogs,
             annualizedGrossProfit = Some annualizedGrossProfit,
             annualizedSga = Some annualizedSga,
             annualizedOperatingIncome = Some annualizedOperatingIncome,
             annualizedNonOpIncome = Some annualizedNonOpIncome,
             annualizedNonOpExpense = Some annualizedNonOpExpense,
             annualizedNetIncomeBeforeAdjustment = Some annualizedNetIncomeBeforeAdjustment,
             annualizedNetIncomeAfterAdjustment = Some annualizedNetIncomeAfterAdjustment,
             baseTaxAfter = Some baseTaxAfter, taxCreditAmountAfter = Some taxCreditAmountAfter,
             taxAfterCredit = Some taxAfterCredit, finalTaxBefore = Some finalTaxBefore,
             finalTaxAfter = Some finalTaxAfter, taxSavings = Some taxSavings,
             safeProfit = Some safeProfit, profitMargin = profitMargin \<rparr>)"


section \<open>Notions used to state the properties\<close>

text \<open>A number that is neither NaN nor an infinity, as \<^verbatim>\<open>Number.isFinite\<close> tests.\<close>

fun isFinite :: "jsnum \<Rightarrow> bool" where
  "isFinite (Fin a) = True"
| "isFinite x = False"


definition bracketsOf :: "EntityType \<Rightarrow> TaxBracket list" where
  "bracketsOf entityType =
     (if entityType = Individual then INDIVIDUAL_TAX_BRACKETS else CORPORATE_TAX_BRACKETS)"






text \<open>
  Concrete inputs: the end-to-end scenario in currency units and in millions, the industry
  key of individual margin 0.117, a form left blank, and a form whose revenue is the
  string \<^verbatim>\<open>Infinity\<close>.
\<close>

definition scenarioData :: YearData where
  "scenarioData =
     \<lparr> revenue = js ''100000000'', cogs = js ''40000000'', sga = js ''20000000'',
       nonOpIncome = js ''1000000'', nonOpExpense = js ''500000'',
       additionalExpenses = js ''1000000'' \<rparr>"


definition wholesaleRetail :: jsstring where
  "wholesaleRetail = [0xB3C4, 0xC18C, 0xB9E4, 0xC5C5]"

definition blankData :: YearData where
  "blankData =
     \<lparr> revenue = [], cogs = [], sga = [], nonOpIncome = [], nonOpExpense = [],
       additionalExpenses = [] \<rparr>"

definition infinityData :: YearData where
  "infinityData = blankData \<lparr> revenue := js ''Infinity'' \<rparr>"

section \<open>Evaluation rules\<close>

lemmas Number_eval =
  Number_def js_def isWhiteSpace_def nonDecimalIntegerLiteral_def strDecimalLiteral_def
  strUnsignedDecimalLiteral_def exponentPart_def scale_def digitsValue_def digitOf_def
  isDigit_def Let_def

lemmas calc_eval =
  calculateAllMetrics_def annualizationFactorOf_def Number_eval orZero_def calculateTax_def
  jsub_def infTimes_def INDIVIDUAL_TAX_BRACKETS_def CORPORATE_TAX_BRACKETS_def
  BASIC_DEDUCTION_def getProperty_def INDUSTRY_PROFIT_MARGINS_def objectPrototypeKeys_def
  toNumber_def

section \<open>Arithmetic of JavaScript numbers\<close>

lemma isFinite_iff: "isFinite x \<longleftrightarrow> (\<exists>a. x = Fin a)"
  by (cases x) simp_all












section \<open>Parsing\<close>

lemma Number_examples:
  "Number [] = Fin 0"
  "Number (js ''  '') = Fin 0"
  "Number (js '' 12.5e-1 '') = Fin 1.25"
  "Number (js ''.5'') = Fin 0.5"
  "Number (js ''-7.'') = Fin (- 7)"
  "Number (js ''0x1F'') = Fin 31"
  "Number (js ''-Infinity'') = NInf"
  "Number (js ''1e'') = NaN"
  "Number (js ''-0x1F'') = NaN"
  "Number (js ''12 3'') = NaN"
  "Number (js ''.'') = NaN"
  by (simp_all add: Number_eval)

lemma blank_or_NaN_zero:
  "Number s = NaN \<or> list_all isWhiteSpace s \<Longrightarrow> orZero (Number s) = Fin 0"
proof (erule disjE)
  assume "Number s = NaN"
  then show ?thesis by (simp add: orZero_def)
next
  assume "list_all isWhiteSpace s"
  then have "dropWhile isWhiteSpace s = []"
    by (simp add: list_all_iff)
  then show ?thesis by (simp add: Number_def orZero_def)
qed

lemma zero_string: "orZero (Number (js ''0'')) = Fin 0"
  by (simp add: Number_eval orZero_def)

section \<open>The bracket tax function\<close>



lemma scanBrackets_cases:
  "scanBrackets income bs d \<in> set bs \<or> scanBrackets income bs d = d"
  by (induction bs) auto

lemma scanBrackets_in_table:
  "bs \<noteq> [] \<Longrightarrow> scanBrackets income bs (bs ! (length bs - 1)) \<in> set bs"
  using scanBrackets_cases [of income bs "bs ! (length bs - 1)"] by auto

lemma bracketsOf_nonempty: "bracketsOf e \<noteq> []"
  by (simp add: bracketsOf_def INDIVIDUAL_TAX_BRACKETS_def CORPORATE_TAX_BRACKETS_def)






section \<open>Fields of the result\<close>




text \<open>A field whose parsed value is 0 may as well hold the string \<^verbatim>\<open>0\<close>.\<close>

lemma revenue_zero:
  "orZero (Number s) = Fin 0 \<Longrightarrow>
   calculateAllMetrics (d\<lparr>revenue := s\<rparr>) m e l r i
     = calculateAllMetrics (d\<lparr>revenue := js ''0''\<rparr>) m e l r i"
  by (simp add: calculateAllMetrics_def Let_def zero_string)

lemma cogs_zero:
  "orZero (Number s) = Fin 0 \<Longrightarrow>
   calculateAllMetrics (d\<lparr>cogs := s\<rparr>) m e l r i
     = calculateAllMetrics (d\<lparr>cogs := js ''0''\<rparr>) m e l r i"
  by (simp add: calculateAllMetrics_def Let_def zero_string)

lemma sga_zero:
  "orZero (Number s) = Fin 0 \<Longrightarrow>
   calculateAllMetrics (d\<lparr>sga := s\<rparr>) m e l r i
     = calculateAllMetrics (d\<lparr>sga := js ''0''\<rparr>) m e l r i"
  by (simp add: calculateAllMetrics_def Let_def zero_string)

lemma nonOpIncome_zero:
  "orZero (Number s) = Fin 0 \<Longrightarrow>
   calculateAllMetrics (d\<lparr>nonOpIncome := s\<rparr>) m e l r i
     = calculateAllMetrics (d\<lparr>nonOpIncome := js ''0''\<rparr>) m e l r i"
  by (simp add: calculateAllMetrics_def Let_def zero_string)

lemma nonOpExpense_zero:
  "orZero (Number s) = Fin 0 \<Longrightarrow>
   calculateAllMetrics (d\<lparr>nonOpExpense := s\<rparr>) m e l r i
     = calculateAllMetrics (d\<lparr>nonOpExpense := js ''0''\<rparr>) m e l r i"
  by (simp add: calculateAllMetrics_def Let_def zero_string)

lemma additionalExpenses_zero:
  "orZero (Number s) = Fin 0 \<Longrightarrow>
   calculateAllMetrics (d\<lparr>additionalExpenses := s\<rparr>) m e l r i
     = calculateAllMetrics (d\<lparr>additionalExpenses := js ''0''\<rparr>) m e l r i"
  by (simp add: calculateAllMetrics_def Let_def zero_string)

text \<open>
  With an entity type set, every field but \<open>profitMargin\<close> is a number, and
  \<open>profitMargin\<close> is \<^verbatim>\<open>undefined\<close> exactly when the industry key is not an own key of
  the table but names a property inherited from \<^verbatim>\<open>Object.prototype\<close>.
\<close>

lemma fields_defined:
  assumes "e \<noteq> Null"
  shows "numRevenue (calculateAllMetrics d m e l r i) \<noteq> None"
    and "numCogs (calculateAllMetrics d m e l r i) \<noteq> None"
    and "grossProfit (calculateAllMetrics d m e l r i) \<noteq> None"
    and "numSga (calculateAllMetrics d m e l r i) \<noteq> None"
    and "operatingIncome (calculateAllMetrics d m e l r i) \<noteq> None"
    and "numNonOpIncome (calculateAllMetrics d m e l r i) \<noteq> None"
    and "numNonOpExpense (calculateAllMetrics d m e l r i) \<noteq> None"
    and "numAdditionalExpenses (calculateAllMetrics d m e l r i) \<noteq> None"
    and "currentNetIncomeBeforeAdjustment (calculateAllMetrics d m e l r i) \<noteq> None"
    and "currentNetIncomeAfterAdjustment (calculateAllMetrics d m e l r i) \<noteq> None"
    and "annualizedRevenue (calculateAllMetrics d m e l r i) \<noteq> None"
    and "annualizedCogs (calculateAllMetrics d m e l r i) \<noteq> None"
    and "annualizedGrossProfit (calculateAllMetrics d m e l r i) \<noteq> None"
    and "annualizedSga (calculateAllMetrics d m e l r i) \<noteq> None"
    and "annualizedOperatingIncome (calculateAllMetrics d m e l r i) \<noteq> None"
    and "annualizedNonOpIncome (calculateAllMetrics d m e l r i) \<noteq> None"
    and "annualizedNonOpExpense (calculateAllMetrics d m e l r i) \<noteq> None"
    and "annualizedNetIncomeBeforeAdjustment (calculateAllMetrics d m e l r i) \<noteq> None"
    and "annualizedNetIncomeAfterAdjustment (calculateAllMetrics d m e l r i) \<noteq> None"
    and "baseTaxAfter (calculateAllMetrics d m e l r i) \<noteq> None"
    and "taxCreditAmountAfter (calculateAllMetrics d m e l r i) \<noteq> None"
    and "taxAfterCredit (calculateAllMetrics d m e l r i) \<noteq> None"
    and "finalTaxBefore (calculateAllMetrics d m e l r i) \<noteq> None"
    and "finalTaxAfter (calculateAllMetrics d m e l r i) \<noteq> None"
    and "taxSavings (calculateAllMetrics d m e l r i) \<noteq> None"
    and "safeProfit (calculateAllMetrics d m e l r i) \<noteq> None"
  using assms by (simp_all add: calculateAllMetrics_def Let_def)

lemma profitMargin_undefined_iff:
  "e \<noteq> Null \<Longrightarrow>
   profitMargin (calculateAllMetrics d m e l r i) = None
     \<longleftrightarrow> map_of INDUSTRY_PROFIT_MARGINS i = None \<and> i \<in> set objectPrototypeKeys"
  by (simp add: calculateAllMetrics_def Let_def getProperty_def split: option.split)


section \<open>The properties\<close>

text \<open>
  C1. The end-to-end scenario: an individual, twelve settlement months, revenue
  100,000,000, cost of goods sold 40,000,000, selling and administrative expenses
  20,000,000, non-operating income 1,000,000, non-operating expense 500,000, additional
  expenses 1,000,000, no credit, no local tax, and the industry of individual margin 0.117.
  The calculator returns gross profit 60,000,000, operating income 40,000,000, net income
  40,500,000 before and 39,500,000 after the adjustment, base tax 4,440,000, final tax
  4,440,000 and safe profit 11,700,000.
\<close>

theorem C1_scenario:
  "grossProfit (calculateAllMetrics scenarioData (Fin 12) Individual False (Fin 0) wholesaleRetail) = Some (Fin 60000000)
   \<and> operatingIncome (calculateAllMetrics scenarioData (Fin 12) Individual False (Fin 0) wholesaleRetail) = Some (Fin 40000000)
   \<and> currentNetIncomeBeforeAdjustment (calculateAllMetrics scenarioData (Fin 12) Individual False (Fin 0) wholesaleRetail) = Some (Fin 40500000)
   \<and> currentNetIncomeAfterAdjustment (calculateAllMetrics scenarioData (Fin 12) Individual False (Fin 0) wholesaleRetail) = Some (Fin 39500000)
   \<and> baseTaxAfter (calculateAllMetrics scenarioData (Fin 12) Individual False (Fin 0) wholesaleRetail) = Some (Fin 4440000)
   \<and> finalTaxAfter (calculateAllMetrics scenarioData (Fin 12) Individual False (Fin 0) wholesaleRetail) = Some (Fin 4440000)
   \<and> safeProfit (calculateAllMetrics scenarioData (Fin 12) Individual False (Fin 0) wholesaleRetail) = Some (Fin 11700000)
   \<and> map_of INDUSTRY_PROFIT_MARGINS wholesaleRetail
       = Some \<lparr>individual = Fin 0.117, corporate = Fin 0.045\<rparr>"
  by (simp add: calc_eval scenarioData_def wholesaleRetail_def)










text \<open>
  C6. With no entity type set the calculator returns the empty record, whatever the other
  inputs. With an entity type set every field should be defined; it is not when the
  industry key names a property that the benchmark table inherits, such as
  \<^verbatim>\<open>constructor\<close>: the lookup finds the inherited function, which is truthy, so the
  fallback to 0 is not taken, and its property \<^verbatim>\<open>individual\<close> is \<^verbatim>\<open>undefined\<close>. The field
  \<open>profitMargin\<close> is then \<^verbatim>\<open>undefined\<close> and \<open>safeProfit\<close> is NaN.
\<close>

theorem C6_unset_and_inherited_key:
  "calculateAllMetrics d m Null l r i = emptyResult
   \<and> map_of INDUSTRY_PROFIT_MARGINS (js ''constructor'') = None
   \<and> profitMargin
        (calculateAllMetrics scenarioData (Fin 12) Individual False (Fin 0) (js ''constructor''))
       = None
   \<and> safeProfit
        (calculateAllMetrics scenarioData (Fin 12) Individual False (Fin 0) (js ''constructor''))
       = Some NaN"
  by (simp add: calc_eval scenarioData_def)

text \<open>
  C7, amended. The calculator has no failing step: the bracket read before the loop and
  the bracket the loop selects are elements of the table. Replacing a field that is blank
  or not numeric by the string \<^verbatim>\<open>0\<close> leaves the result unchanged. With an entity type set,
  an industry key that is neither a key of the benchmark table nor the name of a property
  the table inherits gives a profit margin of 0, and a safe profit of 0 when the
  annualized revenue is finite.
\<close>

theorem C7_coercion:
  "(Number s = NaN \<or> list_all isWhiteSpace s \<longrightarrow>
      calculateAllMetrics (d\<lparr>revenue := s\<rparr>) m e l r i
        = calculateAllMetrics (d\<lparr>revenue := js ''0''\<rparr>) m e l r i
      \<and> calculateAllMetrics (d\<lparr>cogs := s\<rparr>) m e l r i
        = calculateAllMetrics (d\<lparr>cogs := js ''0''\<rparr>) m e l r i
      \<and> calculateAllMetrics (d\<lparr>sga := s\<rparr>) m e l r i
        = calculateAllMetrics (d\<lparr>sga := js ''0''\<rparr>) m e l r i
      \<and> calculateAllMetrics (d\<lparr>nonOpIncome := s\<rparr>) m e l r i
        = calculateAllMetrics (d\<lparr>nonOpIncome := js ''0''\<rparr>) m e l r i
      \<and> calculateAllMetrics (d\<lparr>nonOpExpense := s\<rparr>) m e l r i
        = calculateAllMetrics (d\<lparr>nonOpExpense := js ''0''\<rparr>) m e l r i
      \<and> calculateAllMetrics (d\<lparr>additionalExpenses := s\<rparr>) m e l r i
        = calculateAllMetrics (d\<lparr>additionalExpenses := js ''0''\<rparr>) m e l r i)
   \<and> (e \<noteq> Null \<and> map_of INDUSTRY_PROFIT_MARGINS i = None \<and> i \<notin> set objectPrototypeKeys \<longrightarrow>
        profitMargin (calculateAllMetrics d m e l r i) = Some (Fin 0)
        \<and> (isFinite (toNumber (annualizedRevenue (calculateAllMetrics d m e l r i))) \<longrightarrow>
             safeProfit (calculateAllMetrics d m e l r i) = Some (Fin 0)))
   \<and> bracketsOf e \<noteq> []
   \<and> bracketsOf e ! (length (bracketsOf e) - 1) \<in> set (bracketsOf e)
   \<and> scanBrackets income (bracketsOf e) (bracketsOf e ! (length (bracketsOf e) - 1))
       \<in> set (bracketsOf e)"
proof (intro conjI impI)
  assume "Number s = NaN \<or> list_all isWhiteSpace s"
  then have z: "orZero (Number s) = Fin 0" by (rule blank_or_NaN_zero)
  show "calculateAllMetrics (d\<lparr>revenue := s\<rparr>) m e l r i
        = calculateAllMetrics (d\<lparr>revenue := js ''0''\<rparr>) m e l r i"
    using z by (rule revenue_zero)
  show "calculateAllMetrics (d\<lparr>cogs := s\<rparr>) m e l r i
        = calculateAllMetrics (d\<lparr>cogs := js ''0''\<rparr>) m e l r i"
    using z by (rule cogs_zero)
  show "calculateAllMetrics (d\<lparr>sga := s\<rparr>) m e l r i
        = calculateAllMetrics (d\<lparr>sga := js ''0''\<rparr>) m e l r i"
    using z by (rule sga_zero)
  show "calculateAllMetrics (d\<lparr>nonOpIncome := s\<rparr>) m e l r i
        = calculateAllMetrics (d\<lparr>nonOpIncome := js ''0''\<rparr>) m e l r i"
    using z by (rule nonOpIncome_zero)
  show "calculateAllMetrics (d\<lparr>nonOpExpense := s\<rparr>) m e l r i
        = calculateAllMetrics (d\<lparr>nonOpExpense := js ''0''\<rparr>) m e l r i"
    using z by (rule nonOpExpense_zero)
  show "calculateAllMetrics (d\<lparr>additionalExpenses := s\<rparr>) m e l r i
        = calculateAllMetrics (d\<lparr>additionalExpenses := js ''0''\<rparr>) m e l r i"
    using z by (rule additionalExpenses_zero)
next
  assume a: "e \<noteq> Null \<and> map_of INDUSTRY_PROFIT_MARGINS i = None \<and> i \<notin> set objectPrototypeKeys"
  then show "profitMargin (calculateAllMetrics d m e l r i) = Some (Fin 0)"
    by (simp add: calculateAllMetrics_def Let_def getProperty_def)
  assume "isFinite (toNumber (annualizedRevenue (calculateAllMetrics d m e l r i)))"
  with a show "safeProfit (calculateAllMetrics d m e l r i) = Some (Fin 0)"
    by (auto simp: calculateAllMetrics_def Let_def getProperty_def toNumber_def isFinite_iff)
next
  show ne: "bracketsOf e \<noteq> []" by (rule bracketsOf_nonempty)
  then show "bracketsOf e ! (length (bracketsOf e) - 1) \<in> set (bracketsOf e)"
    by simp
  from ne show "scanBrackets income (bracketsOf e) (bracketsOf e ! (length (bracketsOf e) - 1))
       \<in> set (bracketsOf e)"
    by (rule scanBrackets_in_table)
qed

theorem C7_coercion_witness:
  "Number (js ''abc'') = NaN
   \<and> calculateAllMetrics (scenarioData\<lparr>cogs := js ''abc''\<rparr>) (Fin 12) Individual False (Fin 0)
        (js ''unknown'')
       = calculateAllMetrics (scenarioData\<lparr>cogs := js ''0''\<rparr>) (Fin 12) Individual False (Fin 0)
           (js ''unknown'')
   \<and> Individual \<noteq> Null \<and> map_of INDUSTRY_PROFIT_MARGINS (js ''unknown'') = None
   \<and> js ''unknown'' \<notin> set objectPrototypeKeys
   \<and> annualizedRevenue
        (calculateAllMetrics scenarioData (Fin 12) Individual False (Fin 0) (js ''unknown''))
       = Some (Fin 100000000)
   \<and> profitMargin
        (calculateAllMetrics scenarioData (Fin 12) Individual False (Fin 0) (js ''unknown''))
       = Some (Fin 0)
   \<and> safeProfit
        (calculateAllMetrics scenarioData (Fin 12) Individual False (Fin 0) (js ''unknown''))
       = Some (Fin 0)"
proof -
  have n: "Number (js ''abc'') = NaN"
    by (simp add: Number_eval)
  have k: "Individual \<noteq> Null" "map_of INDUSTRY_PROFIT_MARGINS (js ''unknown'') = None"
    "js ''unknown'' \<notin> set objectPrototypeKeys"
    by (simp_all add: INDUSTRY_PROFIT_MARGINS_def objectPrototypeKeys_def js_def)
  have a: "annualizedRevenue
        (calculateAllMetrics scenarioData (Fin 12) Individual False (Fin 0) (js ''unknown''))
       = Some (Fin 100000000)"
    by (simp add: calc_eval scenarioData_def)
  note th = C7_coercion [where s = "js ''abc''" and d = scenarioData and m = "Fin 12"
      and e = Individual and l = False and r = "Fin 0" and i = "js ''unknown''"]
  from th n have "calculateAllMetrics (scenarioData\<lparr>cogs := js ''abc''\<rparr>) (Fin 12) Individual False
        (Fin 0) (js ''unknown'')
       = calculateAllMetrics (scenarioData\<lparr>cogs := js ''0''\<rparr>) (Fin 12) Individual False (Fin 0)
           (js ''unknown'')"
    by blast
  moreover from th k have "profitMargin
        (calculateAllMetrics scenarioData (Fin 12) Individual False (Fin 0) (js ''unknown''))
       = Some (Fin 0)"
    by blast
  moreover from th k a have "safeProfit
        (calculateAllMetrics scenarioData (Fin 12) Individual False (Fin 0) (js ''unknown''))
       = Some (Fin 0)"
    by (simp add: toNumber_def)
  ultimately show ?thesis using n k a by blast
qed

text \<open>
  C7 as stated fails when the revenue is the string \<^verbatim>\<open>Infinity\<close>: for an industry key that
  is not in the table the margin is 0, and the safe profit, \<^verbatim>\<open>Infinity * 0\<close>, is NaN.
\<close>

theorem C7_counterexample:
  "map_of INDUSTRY_PROFIT_MARGINS (js ''unknown'') = None
   \<and> js ''unknown'' \<notin> set objectPrototypeKeys
   \<and> profitMargin
        (calculateAllMetrics infinityData (Fin 12) Individual False (Fin 0) (js ''unknown''))
       = Some (Fin 0)
   \<and> safeProfit
        (calculateAllMetrics infinityData (Fin 12) Individual False (Fin 0) (js ''unknown''))
       = Some NaN
   \<and> safeProfit
        (calculateAllMetrics infinityData (Fin 12) Individual False (Fin 0) (js ''unknown''))
       \<noteq> Some (Fin 0)"
  by (simp add: calc_eval infinityData_def blankData_def)









end
